theory Spec2Isabelle
  imports Main "HOL-Library.AList"
begin

section \<open>Data model of \<^verbatim>\<open>main.go\<close>\<close>

text \<open>
  The program is a single Go file. Everything it calls from the standard library
  (\<^verbatim>\<open>io/ioutil\<close>, \<^verbatim>\<open>os\<close>, \<^verbatim>\<open>net/http\<close>, \<^verbatim>\<open>net/url\<close>, \<^verbatim>\<open>encoding/json\<close>, \<^verbatim>\<open>path\<close>) is
  outside the program: those functions are taken as parameters, collected in the record
  \<open>env\<close>, and the program's own functions are written over an arbitrary \<open>env\<close>.

  \<^item> \<open>'w\<close> is the state of the outside world (file system and network);
  \<^item> \<open>'u\<close> is the library type \<^verbatim>\<open>url.URL\<close>;
  \<^item> \<open>'r\<close> is an open \<^verbatim>\<open>http.Response\<close>;
  \<^item> \<open>'e\<close> is the type of the error values the libraries return.

  A \<^verbatim>\<open>[]byte\<close> and a Go \<^verbatim>\<open>string\<close> are both byte sequences; \<^verbatim>\<open>nil\<close> and the empty slice
  are both \<open>[]\<close>.
\<close>

type_synonym bytes = string

text \<open>
  Error values: \<^verbatim>\<open>ErrOffline = errors.New(...)\<close> is the one error the program creates;
  every other error comes out of a library call.
\<close>

datatype 'e error = ErrOffline | LibError 'e

text \<open>
  \<^verbatim>\<open>type JsonURL struct { u *url.URL }\<close>: the pointer may be \<^verbatim>\<open>nil\<close> (\<open>None\<close>), which is
  also the zero value of the struct.
\<close>

record 'u JsonURL =
  u :: "'u option"

record 'u BookEssential =
  Epoch :: string
  Kind :: string
  Genre :: string
  Url :: "'u JsonURL"
  Href :: "'u JsonURL"
  Slug :: string
  Author :: string
  Title :: string

record 'u Tag =
  Url :: "'u JsonURL"
  Href :: "'u JsonURL"
  Name :: string
  Slug :: string

record 'u BookDetails =
  Authors :: "'u Tag list"
  Epochs :: "'u Tag list"
  Kinds :: "'u Tag list"
  Genres :: "'u Tag list"
  Slug :: string
  Title :: string
  Parent :: "'u BookEssential option"
  Children :: "'u BookEssential list"
  URL :: "'u JsonURL"
  Txt :: "'u JsonURL"
  Xml :: "'u JsonURL"
  Html :: "'u JsonURL"
  Fb2 :: "'u JsonURL"
  Epub :: "'u JsonURL"
  Mobi :: "'u JsonURL"
  Pdf :: "'u JsonURL"

text \<open>The zero value of \<^verbatim>\<open>BookDetails\<close>, which a named result starts from.\<close>

definition zero_BookDetails :: "'u BookDetails" where
  "zero_BookDetails =
     \<lparr>Authors = [], Epochs = [], Kinds = [], Genres = [], Slug = [], Title = [],
      Parent = None, Children = [],
      URL = \<lparr>u = None\<rparr>, Txt = \<lparr>u = None\<rparr>, Xml = \<lparr>u = None\<rparr>, Html = \<lparr>u = None\<rparr>,
      Fb2 = \<lparr>u = None\<rparr>, Epub = \<lparr>u = None\<rparr>, Mobi = \<lparr>u = None\<rparr>, Pdf = \<lparr>u = None\<rparr>\<rparr>"

section \<open>Effects\<close>

text \<open>
  What a call does to the outside is recorded twice: the world state \<open>'w\<close> is threaded
  through the library calls that may change it, and every such call is appended to a
  trace. Reading a file is an observation: it changes neither.
\<close>

datatype event =
    EvLog string              \<comment> \<open>\<^verbatim>\<open>log.Print\<close>: the line printed\<close>
  | EvGet string              \<comment> \<open>\<^verbatim>\<open>httpClient.Get\<close>: the URL requested\<close>
  | EvWrite string bytes nat  \<comment> \<open>\<^verbatim>\<open>ioutil.WriteFile\<close>: path, data, permission bits\<close>
  | EvMkdir string nat        \<comment> \<open>\<^verbatim>\<open>os.Mkdir\<close>: path, permission bits\<close>

record 'w state =
  world :: 'w
  Offline :: bool     \<comment> \<open>the flag \<^verbatim>\<open>*Offline\<close>\<close>
  trace :: "event list"

text \<open>
  A call returns, panics, or ends the process through \<^verbatim>\<open>log.Fatal\<close> (whose arguments
  are kept).
\<close>

datatype 'e logarg = LStr string | LErr "'e error"

datatype ('a, 'e) outcome = Return 'a | Panic string | Fatal "'e logarg list"

definition nil_deref :: string where
  "nil_deref = ''invalid memory address or nil pointer dereference''"

record ('w, 'u, 'r, 'e) env =
  os_ReadFile :: "'w \<Rightarrow> string \<Rightarrow> bytes \<times> 'e option"
  os_WriteFile :: "'w \<Rightarrow> string \<Rightarrow> bytes \<Rightarrow> nat \<Rightarrow> 'e option \<times> 'w"
  os_Mkdir :: "'w \<Rightarrow> string \<Rightarrow> nat \<Rightarrow> 'e option \<times> 'w"
  os_IsNotExist :: "'e \<Rightarrow> bool"
  os_IsExist :: "'e \<Rightarrow> bool"
  http_Get :: "'w \<Rightarrow> string \<Rightarrow> ('e + 'r) \<times> 'w"
  io_ReadAll :: "'w \<Rightarrow> 'r \<Rightarrow> (bytes \<times> 'e option) \<times> 'w"
  body_Close :: "'w \<Rightarrow> 'r \<Rightarrow> 'w"
  url_String :: "'u \<Rightarrow> string"
  url_Parse :: "string \<Rightarrow> 'u option \<times> 'e option"
  json_Marshal_string :: "string \<Rightarrow> bytes \<times> 'e option"
  json_Unmarshal_string :: "bytes \<Rightarrow> string \<times> 'e option"
  json_Unmarshal_BookDetails :: "bytes \<Rightarrow> 'u BookDetails \<Rightarrow> 'u BookDetails \<times> 'e option"
  path_Join :: "string \<Rightarrow> string \<Rightarrow> string"
  range_order :: "(string \<times> 'u JsonURL) list \<Rightarrow> (string \<times> 'u JsonURL) list"

text \<open>Lifting a library error into the program's error values.\<close>

definition lib_err :: "'e option \<Rightarrow> 'e error option" where
  "lib_err = map_option LibError"

text \<open>The constants of the \<^verbatim>\<open>var\<close> block.\<close>

definition BooksFile :: string where
  "BooksFile = ''books.json''"

definition DetailsFile :: string where
  "DetailsFile = ''details.json''"

text \<open>The permission literals \<^verbatim>\<open>0644\<close> and \<^verbatim>\<open>0755\<close> are octal.\<close>

definition perm_0644 :: nat where
  "perm_0644 = 6 * 64 + 4 * 8 + 4"

definition perm_0755 :: nat where
  "perm_0755 = 7 * 64 + 5 * 8 + 5"

definition log_Print :: "string \<Rightarrow> 'w state \<Rightarrow> 'w state" where
  "log_Print msg s = s\<lparr>trace := trace s @ [EvLog msg]\<rparr>"

section \<open>The cached-fetch primitive\<close>

text \<open>
  \<^verbatim>\<open>func cachedFile(filePath string, originUrl *url.URL) (content []byte, err error)\<close>.
  The named results \<^verbatim>\<open>content\<close> and \<^verbatim>\<open>err\<close> are what a bare \<^verbatim>\<open>return\<close> hands
  back, so a failing \<^verbatim>\<open>Get\<close> returns the \<^verbatim>\<open>content\<close> left by \<^verbatim>\<open>ReadFile\<close>.
  \<^verbatim>\<open>originUrl.String()\<close> dereferences the pointer, after the first log line.
  The deferred \<^verbatim>\<open>resp.Body.Close()\<close> runs when the function returns.
\<close>

definition cachedFile ::
  "('w, 'u, 'r, 'e) env \<Rightarrow> string \<Rightarrow> 'u option \<Rightarrow> 'w state
     \<Rightarrow> (bytes \<times> 'e error option, 'e) outcome \<times> 'w state" where
  "cachedFile E filePath originUrl s =
     (case os_ReadFile E (world s) filePath of
        (content, None) \<Rightarrow> (Return (content, None), s)
      | (content, Some err) \<Rightarrow>
          if \<not> os_IsNotExist E err then (Return (content, Some (LibError err)), s)
          else if Offline s then (Return ([], Some ErrOffline), s)
          else
            let s1 = log_Print (filePath @ '' not available offline, downloading'') s in
            (case originUrl of
               None \<Rightarrow> (Panic nil_deref, s1)
             | Some x \<Rightarrow>
                 let s2 = s1\<lparr>trace := trace s1 @ [EvGet (url_String E x)]\<rparr> in
                 (case http_Get E (world s2) (url_String E x) of
                    (Inl err, w3) \<Rightarrow> (Return (content, Some (LibError err)), s2\<lparr>world := w3\<rparr>)
                  | (Inr resp, w3) \<Rightarrow>
                      (case io_ReadAll E w3 resp of
                         ((content', Some err), w4) \<Rightarrow>
                           (Return (content', Some (LibError err)),
                            s2\<lparr>world := body_Close E w4 resp\<rparr>)
                       | ((content', None), w4) \<Rightarrow>
                           (case os_WriteFile E w4 filePath content' perm_0644 of
                              (err, w5) \<Rightarrow>
                                let s5 = s2\<lparr>world := w5,
                                           trace := trace s2 @ [EvWrite filePath content' perm_0644]\<rparr>;
                                    s6 = log_Print (filePath @ '' synced and saved'') s5
                                in (Return (content', lib_err err),
                                    s6\<lparr>world := body_Close E (world s6) resp\<rparr>))))))"

section \<open>The URL value that travels as a JSON string\<close>

text \<open>
  \<^verbatim>\<open>func (j JsonURL) String() string { return j.u.String() }\<close>: the library method reads
  the fields of \<^verbatim>\<open>*j.u\<close>, so a \<^verbatim>\<open>nil\<close> pointer panics.
\<close>

definition JsonURL_String :: "('w, 'u, 'r, 'e) env \<Rightarrow> 'u JsonURL \<Rightarrow> (string, 'e) outcome" where
  "JsonURL_String E j =
     (case u j of None \<Rightarrow> Panic nil_deref | Some x \<Rightarrow> Return (url_String E x))"

text \<open>\<^verbatim>\<open>func (j *JsonURL) MarshalJSON() ([]byte, error)\<close>\<close>

definition MarshalJSON ::
  "('w, 'u, 'r, 'e) env \<Rightarrow> 'u JsonURL \<Rightarrow> (bytes \<times> 'e error option, 'e) outcome" where
  "MarshalJSON E j =
     (case u j of
        None \<Rightarrow> Panic nil_deref
      | Some x \<Rightarrow>
          (case json_Marshal_string E (url_String E x) of
             (b, err) \<Rightarrow> Return (b, lib_err err)))"


section \<open>File-set resolution\<close>

text \<open>
  A Go map is kept as an association list with distinct keys; \<open>AList.update\<close> is the
  assignment \<^verbatim>\<open>f[k] = v\<close> and \<open>map_of\<close> the lookup. One step of \<^verbatim>\<open>Files\<close>:
  \<^verbatim>\<open>if j.String() != "" { f[slug+ext] = j }\<close>.
\<close>

definition put_format ::
  "('w, 'u, 'r, 'e) env \<Rightarrow> string \<Rightarrow> string \<Rightarrow> 'u JsonURL \<Rightarrow> (string \<times> 'u JsonURL) list
     \<Rightarrow> ((string \<times> 'u JsonURL) list, 'e) outcome" where
  "put_format E slug ext j f =
     (case JsonURL_String E j of
        Return str \<Rightarrow> Return (if str \<noteq> [] then AList.update (slug @ ext) j f else f)
      | Panic m \<Rightarrow> Panic m
      | Fatal a \<Rightarrow> Fatal a)"

text \<open>Sequencing: the next statement runs only when the previous one returned.\<close>

definition and_then :: "('a, 'e) outcome \<Rightarrow> ('a \<Rightarrow> ('b, 'e) outcome) \<Rightarrow> ('b, 'e) outcome" where
  "and_then r k = (case r of Return x \<Rightarrow> k x | Panic m \<Rightarrow> Panic m | Fatal a \<Rightarrow> Fatal a)"

text \<open>\<^verbatim>\<open>func (b BookDetails) Files() (f map[string]JsonURL)\<close>\<close>

definition Files ::
  "('w, 'u, 'r, 'e) env \<Rightarrow> 'u BookDetails \<Rightarrow> ((string \<times> 'u JsonURL) list, 'e) outcome" where
  "Files E b =
     and_then (put_format E (BookDetails.Slug b) ''.txt'' (Txt b) []) (\<lambda>f.
     and_then (put_format E (BookDetails.Slug b) ''.xml'' (Xml b) f) (\<lambda>f.
     and_then (put_format E (BookDetails.Slug b) ''.html'' (Html b) f) (\<lambda>f.
     and_then (put_format E (BookDetails.Slug b) ''.fb2'' (Fb2 b) f) (\<lambda>f.
     and_then (put_format E (BookDetails.Slug b) ''.epub'' (Epub b) f) (\<lambda>f.
     and_then (put_format E (BookDetails.Slug b) ''.mobi'' (Mobi b) f) (\<lambda>f.
     put_format E (BookDetails.Slug b) ''.pdf'' (Pdf b) f))))))"

text \<open>The seven formats, as (extension, field) pairs in the order of the source.\<close>

definition formats :: "'u BookDetails \<Rightarrow> (string \<times> 'u JsonURL) list" where
  "formats b =
     [(''.txt'', Txt b), (''.xml'', Xml b), (''.html'', Html b), (''.fb2'', Fb2 b),
      (''.epub'', Epub b), (''.mobi'', Mobi b), (''.pdf'', Pdf b)]"

text \<open>
  The same seven steps as a loop over a list of formats; \<open>Files\<close> is this loop on
  \<open>formats\<close>, started from the empty map (lemma \<open>Files_resolve\<close>).
\<close>

fun resolve ::
  "('w, 'u, 'r, 'e) env \<Rightarrow> string \<Rightarrow> (string \<times> 'u JsonURL) list \<Rightarrow> (string \<times> 'u JsonURL) list
     \<Rightarrow> ((string \<times> 'u JsonURL) list, 'e) outcome" where
  "resolve E slug [] f = Return f"
| "resolve E slug ((ext, j) # fs) f = and_then (put_format E slug ext j f) (resolve E slug fs)"

text \<open>A format is available when its URL's string form is not empty.\<close>

definition available :: "('w, 'u, 'r, 'e) env \<Rightarrow> 'u JsonURL \<Rightarrow> bool" where
  "available E j = (case u j of None \<Rightarrow> False | Some x \<Rightarrow> url_String E x \<noteq> [])"

section \<open>The catalog client and the orchestrator\<close>

text \<open>
  \<^verbatim>\<open>func (b BookEssential) Details() (book BookDetails, err error)\<close>.
  \<open>Details_body\<close> is the function body, run on the zero-valued named result
  \<^verbatim>\<open>book\<close>; \<open>Details\<close> adds the deferred \<^verbatim>\<open>book.Slug = b.Slug\<close>, which runs on
  every way out and changes the value a \<^verbatim>\<open>return\<close> hands back.
\<close>

definition Details_body ::
  "('w, 'u, 'r, 'e) env \<Rightarrow> 'u BookEssential \<Rightarrow> 'w state
     \<Rightarrow> ('u BookDetails \<times> 'e error option, 'e) outcome \<times> 'w state" where
  "Details_body E b s =
     (case cachedFile E (path_Join E (BookEssential.Slug b) DetailsFile)
             (u (BookEssential.Href b)) s of
        (Return (content, Some err), s') \<Rightarrow> (Return (zero_BookDetails, Some err), s')
      | (Return (content, None), s') \<Rightarrow>
          (case json_Unmarshal_BookDetails E content zero_BookDetails of
             (book, err) \<Rightarrow> (Return (book, lib_err err), s'))
      | (Panic m, s') \<Rightarrow> (Panic m, s')
      | (Fatal a, s') \<Rightarrow> (Fatal a, s'))"

definition Details ::
  "('w, 'u, 'r, 'e) env \<Rightarrow> 'u BookEssential \<Rightarrow> 'w state
     \<Rightarrow> ('u BookDetails \<times> 'e error option, 'e) outcome \<times> 'w state" where
  "Details E b s =
     (case Details_body E b s of
        (Return (book, err), s') \<Rightarrow>
          (Return (book\<lparr>BookDetails.Slug := BookEssential.Slug b\<rparr>, err), s')
      | (Panic m, s') \<Rightarrow> (Panic m, s')
      | (Fatal a, s') \<Rightarrow> (Fatal a, s'))"

text \<open>
  The loop of \<^verbatim>\<open>ObtainBook\<close> over the entries of the map, in the order the runtime
  hands them out.
\<close>

fun fetchFiles ::
  "('w, 'u, 'r, 'e) env \<Rightarrow> 'u BookEssential \<Rightarrow> (string \<times> 'u JsonURL) list \<Rightarrow> 'w state
     \<Rightarrow> (unit, 'e) outcome \<times> 'w state" where
  "fetchFiles E b [] s = (Return (), s)"
| "fetchFiles E b ((fileName, originUrl) # rest) s =
     (case cachedFile E (path_Join E (BookEssential.Slug b) fileName) (u originUrl) s of
        (Return (content, Some err), s') \<Rightarrow>
          (Fatal [LStr ''failed to obtain file '', LStr fileName, LErr err], s')
      | (Return (content, None), s') \<Rightarrow> fetchFiles E b rest s'
      | (Panic m, s') \<Rightarrow> (Panic m, s')
      | (Fatal a, s') \<Rightarrow> (Fatal a, s'))"

text \<open>Lines 169 to 181 of \<^verbatim>\<open>ObtainBook\<close>: what follows the \<^verbatim>\<open>Mkdir\<close> check.\<close>

definition ObtainBook_fetch ::
  "('w, 'u, 'r, 'e) env \<Rightarrow> 'u BookEssential \<Rightarrow> 'w state
     \<Rightarrow> ('u BookDetails, 'e) outcome \<times> 'w state" where
  "ObtainBook_fetch E b s =
     (case Details E b s of
        (Return (book, Some err), s') \<Rightarrow> (Fatal [LErr err], s')
      | (Return (book, None), s') \<Rightarrow>
          (case Files E book of
             Return f \<Rightarrow>
               (case fetchFiles E b (range_order E f) s' of
                  (Return x, s'') \<Rightarrow> (Return book, s'')
                | (Panic m, s'') \<Rightarrow> (Panic m, s'')
                | (Fatal a, s'') \<Rightarrow> (Fatal a, s''))
           | Panic m \<Rightarrow> (Panic m, s')
           | Fatal a \<Rightarrow> (Fatal a, s'))
      | (Panic m, s') \<Rightarrow> (Panic m, s')
      | (Fatal a, s') \<Rightarrow> (Fatal a, s'))"

text \<open>\<^verbatim>\<open>func (b BookEssential) ObtainBook() (book BookDetails)\<close>\<close>

definition ObtainBook ::
  "('w, 'u, 'r, 'e) env \<Rightarrow> 'u BookEssential \<Rightarrow> 'w state
     \<Rightarrow> ('u BookDetails, 'e) outcome \<times> 'w state" where
  "ObtainBook E b s =
     (case os_Mkdir E (world s) (BookEssential.Slug b) perm_0755 of
        (err, w1) \<Rightarrow>
          let s1 = s\<lparr>world := w1,
                     trace := trace s @ [EvMkdir (BookEssential.Slug b) perm_0755]\<rparr> in
          (case err of
             Some e \<Rightarrow>
               if \<not> os_IsExist E e then (Fatal [LErr (LibError e)], s1)
               else ObtainBook_fetch E b s1
           | None \<Rightarrow> ObtainBook_fetch E b s1))"

section \<open>Reading a trace\<close>

fun gets :: "event list \<Rightarrow> string list" where
  "gets [] = []"
| "gets (EvGet url # es) = url # gets es"
| "gets (e # es) = gets es"

fun writes :: "event list \<Rightarrow> (string \<times> bytes \<times> nat) list" where
  "writes [] = []"
| "writes (EvWrite p d m # es) = (p, d, m) # writes es"
| "writes (e # es) = writes es"

section \<open>A small concrete environment\<close>

text \<open>
  An in-memory stand-in for the libraries, used to run the program on concrete inputs.
  The world is a table of regular files and a list of directories. Reading a directory
  fails with \<^verbatim>\<open>EISDIR\<close> (21), reading a missing path with \<^verbatim>\<open>ENOENT\<close> (2); a file of
  more than 40 bytes does not fit on the disk (\<^verbatim>\<open>ENOSPC\<close>, 28); \<^verbatim>\<open>Mkdir\<close> of an existing
  directory fails with \<^verbatim>\<open>EEXIST\<close> (17). The server answers every non-empty URL with a
  body naming it, and refuses the connection (111) for the empty one. A URL is its own
  string form and must not contain a space; a JSON string is the text between double
  quotes; a detail document is read as the link of the text and PDF formats.
\<close>

type_synonym sim_world = "(string \<times> bytes) list \<times> string list"

definition sim_ReadFile :: "sim_world \<Rightarrow> string \<Rightarrow> bytes \<times> nat option" where
  "sim_ReadFile w p =
     (if p \<in> set (snd w) then ([], Some 21)
      else case map_of (fst w) p of Some c \<Rightarrow> (c, None) | None \<Rightarrow> ([], Some 2))"

definition sim_WriteFile :: "sim_world \<Rightarrow> string \<Rightarrow> bytes \<Rightarrow> nat \<Rightarrow> nat option \<times> sim_world" where
  "sim_WriteFile w p c m =
     (if p \<in> set (snd w) then (Some 21, w)
      else if 40 < length c then (Some 28, w)
      else (None, (AList.update p c (fst w), snd w)))"

definition sim_Mkdir :: "sim_world \<Rightarrow> string \<Rightarrow> nat \<Rightarrow> nat option \<times> sim_world" where
  "sim_Mkdir w p m =
     (if p \<in> set (snd w) then (Some 17, w) else (None, (fst w, p # snd w)))"

definition sim_Get :: "sim_world \<Rightarrow> string \<Rightarrow> (nat + bytes) \<times> sim_world" where
  "sim_Get w url = (if url = [] then (Inl 111, w) else (Inr (''body of '' @ url), w))"

definition sim_Parse :: "string \<Rightarrow> string option \<times> nat option" where
  "sim_Parse str = (if CHR '' '' \<in> set str then (None, Some 1) else (Some str, None))"

definition sim_quote :: "string \<Rightarrow> bytes \<times> nat option" where
  "sim_quote str = (CHR 0x22 # str @ [CHR 0x22], None)"

definition sim_unquote :: "bytes \<Rightarrow> string \<times> nat option" where
  "sim_unquote b =
     (case b of
        [] \<Rightarrow> ([], Some 3)
      | q # rest \<Rightarrow>
          if q = CHR 0x22 \<and> rest \<noteq> [] \<and> last rest = CHR 0x22 then (butlast rest, None)
          else ([], Some 3))"

definition sim_decode :: "bytes \<Rightarrow> string BookDetails \<Rightarrow> string BookDetails \<times> nat option" where
  "sim_decode c book =
     (if c = [] then (book, Some 3)
      else (book\<lparr>BookDetails.Slug := ''slug-in-json'', BookDetails.Title := c,
                  URL := \<lparr>u = Some []\<rparr>, Txt := \<lparr>u = Some c\<rparr>, Xml := \<lparr>u = Some []\<rparr>,
                  Html := \<lparr>u = Some []\<rparr>, Fb2 := \<lparr>u = Some []\<rparr>, Epub := \<lparr>u = Some []\<rparr>,
                  Mobi := \<lparr>u = Some []\<rparr>, Pdf := \<lparr>u = Some c\<rparr>\<rparr>, None))"

definition sim :: "(sim_world, string, bytes, nat) env" where
  "sim =
     \<lparr>os_ReadFile = sim_ReadFile, os_WriteFile = sim_WriteFile, os_Mkdir = sim_Mkdir,
      os_IsNotExist = (\<lambda>e. e = 2), os_IsExist = (\<lambda>e. e = 17),
      http_Get = sim_Get, io_ReadAll = (\<lambda>w r. ((r, None), w)), body_Close = (\<lambda>w r. w),
      url_String = (\<lambda>x. x), url_Parse = sim_Parse,
      json_Marshal_string = sim_quote, json_Unmarshal_string = sim_unquote,
      json_Unmarshal_BookDetails = sim_decode,
      path_Join = (\<lambda>a b. a @ ''/'' @ b), range_order = rev\<rparr>"

text \<open>A summary and a world in which its cache is complete.\<close>

definition lorem :: "string BookEssential" where
  "lorem =
     \<lparr>Epoch = [], Kind = [], Genre = [], Url = \<lparr>u = Some ''http://page/lorem/''\<rparr>,
      Href = \<lparr>u = Some ''http://api/lorem/''\<rparr>, Slug = ''lorem'', Author = ''A'',
      Title = ''Lorem''\<rparr>"

definition lorem_cached :: sim_world where
  "lorem_cached =
     ([(''lorem/details.json'', ''http://f/l''), (''lorem/lorem.txt'', ''text''),
       (''lorem/lorem.pdf'', ''pdf'')],
      [''lorem''])"

definition st :: "sim_world \<Rightarrow> bool \<Rightarrow> sim_world state" where
  "st w off = \<lparr>world = w, Offline = off, trace = []\<rparr>"

text \<open>A detail record offering the text format only, and one whose EPUB field was never set.\<close>

definition foo_detail :: "string BookDetails" where
  "foo_detail =
     \<lparr>Authors = [], Epochs = [], Kinds = [], Genres = [], Slug = ''foo'', Title = ''Foo'',
      Parent = None, Children = [],
      URL = \<lparr>u = Some ''http://x/foo/''\<rparr>, Txt = \<lparr>u = Some ''http://x/a.txt''\<rparr>,
      Xml = \<lparr>u = Some []\<rparr>, Html = \<lparr>u = Some []\<rparr>, Fb2 = \<lparr>u = Some []\<rparr>,
      Epub = \<lparr>u = Some []\<rparr>, Mobi = \<lparr>u = Some []\<rparr>, Pdf = \<lparr>u = Some []\<rparr>\<rparr>"

definition foo_no_epub :: "string BookDetails" where
  "foo_no_epub = foo_detail\<lparr>Epub := \<lparr>u = None\<rparr>\<rparr>"

text \<open>A world in which the cached detail document of \<open>lorem\<close> is empty, hence undecodable.\<close>

definition lorem_broken :: sim_world where
  "lorem_broken = ([(''lorem/details.json'', [])], [''lorem''])"

section \<open>The JSON string encoding of \<^verbatim>\<open>encoding/json\<close>\<close>




























section \<open>Properties of the cached-fetch primitive\<close>

lemma gets_append: "gets (xs @ ys) = gets xs @ gets ys"
  by (induction xs rule: gets.induct) simp_all

lemma cachedFile_cached:
  "os_ReadFile E (world s) filePath = (c, None) \<Longrightarrow>
     cachedFile E filePath originUrl s = (Return (c, None), s)"
  by (simp add: cachedFile_def)

text \<open>
  C1. When the local path can be read, \<open>cachedFile\<close> returns exactly what
  \<^verbatim>\<open>ReadFile\<close> returned, with no error, and the state after the call is the state
  before it: no request has been sent, nothing has been written or logged, and the
  outside world is as it was.
\<close>

theorem cachedFile_hit:
  assumes "os_ReadFile E (world s) filePath = (c, None)"
  shows "cachedFile E filePath originUrl s = (Return (c, None), s)
       \<and> gets (trace (snd (cachedFile E filePath originUrl s))) = gets (trace s)
       \<and> writes (trace (snd (cachedFile E filePath originUrl s))) = writes (trace s)
       \<and> world (snd (cachedFile E filePath originUrl s)) = world s"
  using assms by (simp add: cachedFile_cached)

theorem cachedFile_hit_witness:
  "os_ReadFile sim (world (st lorem_cached False)) ''lorem/lorem.txt'' = (''text'', None)
   \<and> cachedFile sim ''lorem/lorem.txt'' (Some ''http://f/l'') (st lorem_cached False)
       = (Return (''text'', None), st lorem_cached False)"
  using cachedFile_hit [of sim "st lorem_cached False" "''lorem/lorem.txt''" "''text''"
      "Some ''http://f/l''"]
  by (simp add: sim_def sim_ReadFile_def st_def lorem_cached_def)

text \<open>
  C2. When \<^verbatim>\<open>ReadFile\<close> fails with an error that \<^verbatim>\<open>os.IsNotExist\<close> rejects,
  \<open>cachedFile\<close> returns that very error (together with whatever bytes \<^verbatim>\<open>ReadFile\<close>
  handed back) and the state is unchanged: no request, no write.
\<close>

theorem cachedFile_read_error:
  assumes "os_ReadFile E (world s) filePath = (c, Some err)"
    and "\<not> os_IsNotExist E err"
  shows "cachedFile E filePath originUrl s = (Return (c, Some (LibError err)), s)
       \<and> gets (trace (snd (cachedFile E filePath originUrl s))) = gets (trace s)
       \<and> writes (trace (snd (cachedFile E filePath originUrl s))) = writes (trace s)
       \<and> world (snd (cachedFile E filePath originUrl s)) = world s"
  using assms by (simp add: cachedFile_def)

theorem cachedFile_read_error_witness:
  "os_ReadFile sim (world (st lorem_cached False)) ''lorem'' = ([], Some 21)
   \<and> \<not> os_IsNotExist sim 21
   \<and> cachedFile sim ''lorem'' (Some ''http://f/l'') (st lorem_cached False)
       = (Return ([], Some (LibError 21)), st lorem_cached False)"
  using cachedFile_read_error [of sim "st lorem_cached False" "''lorem''" "[]" 21
      "Some ''http://f/l''"]
  by (simp add: sim_def sim_ReadFile_def st_def lorem_cached_def)

text \<open>
  C3. When the path does not exist and the offline flag is set, \<open>cachedFile\<close> returns
  no bytes and the error \<open>ErrOffline\<close>, which is not the error \<^verbatim>\<open>ReadFile\<close> gave, and
  the state is unchanged: no request, no write.
\<close>

theorem cachedFile_offline_miss:
  assumes "os_ReadFile E (world s) filePath = (c, Some err)"
    and "os_IsNotExist E err"
    and "Offline s"
  shows "cachedFile E filePath originUrl s = (Return ([], Some ErrOffline), s)
       \<and> ErrOffline \<noteq> LibError err
       \<and> gets (trace (snd (cachedFile E filePath originUrl s))) = gets (trace s)
       \<and> writes (trace (snd (cachedFile E filePath originUrl s))) = writes (trace s)
       \<and> world (snd (cachedFile E filePath originUrl s)) = world s"
  using assms by (simp add: cachedFile_def)

theorem cachedFile_offline_miss_witness:
  "os_ReadFile sim (world (st lorem_cached True)) ''lorem/x'' = ([], Some 2)
   \<and> os_IsNotExist sim 2 \<and> Offline (st lorem_cached True)
   \<and> cachedFile sim ''lorem/x'' (Some ''http://f/l'') (st lorem_cached True)
       = (Return ([], Some ErrOffline), st lorem_cached True)"
  using cachedFile_offline_miss [of sim "st lorem_cached True" "''lorem/x''" "[]" 2
      "Some ''http://f/l''"]
  by (simp add: sim_def sim_ReadFile_def st_def lorem_cached_def)

lemma cachedFile_miss_gets:
  assumes "os_ReadFile E (world s) filePath = (c, Some err)"
    and "os_IsNotExist E err"
    and "\<not> Offline s"
  shows "gets (trace (snd (cachedFile E filePath (Some x) s))) = gets (trace s) @ [url_String E x]"
  using assms
  by (simp add: cachedFile_def log_Print_def Let_def gets_append
           split: prod.splits sum.splits option.splits)

lemma cachedFile_miss_fetch:
  assumes "os_ReadFile E (world s) filePath = (c, Some err)"
    and "os_IsNotExist E err"
    and "\<not> Offline s"
    and "http_Get E (world s) (url_String E x) = (Inr resp, w1)"
    and "io_ReadAll E w1 resp = ((body, None), w2)"
    and "os_WriteFile E w2 filePath body perm_0644 = (werr, w3)"
  shows "cachedFile E filePath (Some x) s =
           (Return (body, lib_err werr),
            s\<lparr>world := body_Close E w3 resp,
              trace := trace s @
                [EvLog (filePath @ '' not available offline, downloading''),
                 EvGet (url_String E x),
                 EvWrite filePath body perm_0644,
                 EvLog (filePath @ '' synced and saved'')]\<rparr>)"
  using assms
  by (simp add: cachedFile_def log_Print_def Let_def)

text \<open>
  C4. When the path does not exist, the offline flag is not set and a URL is given:
  whatever the network answers, exactly one request is sent, to the string form of that
  URL. When the request is answered and the body is read in full, \<^verbatim>\<open>WriteFile\<close> is
  called once, with the path, exactly the body and mode \<^verbatim>\<open>0644\<close>, and the call returns
  the body together with the result of the write: no error when the write succeeded, the
  write's error next to the same bytes when it failed.
\<close>

theorem cachedFile_online_miss:
  assumes "os_ReadFile E (world s) filePath = (c, Some err)"
    and "os_IsNotExist E err"
    and "\<not> Offline s"
  shows "gets (trace (snd (cachedFile E filePath (Some x) s))) = gets (trace s) @ [url_String E x]
       \<and> (\<forall>resp w1 body w2 werr w3.
            http_Get E (world s) (url_String E x) = (Inr resp, w1) \<longrightarrow>
            io_ReadAll E w1 resp = ((body, None), w2) \<longrightarrow>
            os_WriteFile E w2 filePath body perm_0644 = (werr, w3) \<longrightarrow>
              cachedFile E filePath (Some x) s =
                (Return (body, lib_err werr),
                 s\<lparr>world := body_Close E w3 resp,
                   trace := trace s @
                     [EvLog (filePath @ '' not available offline, downloading''),
                      EvGet (url_String E x),
                      EvWrite filePath body perm_0644,
                      EvLog (filePath @ '' synced and saved'')]\<rparr>))"
  using cachedFile_miss_gets [OF assms] cachedFile_miss_fetch [OF assms]
  by blast

theorem cachedFile_online_miss_witness:
  "cachedFile sim ''lorem/x'' (Some ''http://f/l'') (st lorem_cached False)
     = (Return (''body of http://f/l'', None),
        \<lparr>world = (fst lorem_cached @ [(''lorem/x'', ''body of http://f/l'')], [''lorem'']),
         Offline = False,
         trace = [EvLog ''lorem/x not available offline, downloading'',
                  EvGet ''http://f/l'',
                  EvWrite ''lorem/x'' ''body of http://f/l'' 420,
                  EvLog ''lorem/x synced and saved'']\<rparr>)
   \<and> cachedFile sim ''lorem/x'' (Some ''http://f/a-long-long-long-long-address'')
        (st lorem_cached False)
     = (Return (''body of http://f/a-long-long-long-long-address'', Some (LibError 28)),
        \<lparr>world = lorem_cached, Offline = False,
         trace = [EvLog ''lorem/x not available offline, downloading'',
                  EvGet ''http://f/a-long-long-long-long-address'',
                  EvWrite ''lorem/x'' ''body of http://f/a-long-long-long-long-address'' 420,
                  EvLog ''lorem/x synced and saved'']\<rparr>)"
  using
    cachedFile_online_miss [of sim "st lorem_cached False" "''lorem/x''" "[]" 2 "''http://f/l''"]
    cachedFile_online_miss [of sim "st lorem_cached False" "''lorem/x''" "[]" 2
      "''http://f/a-long-long-long-long-address''"]
  by (simp add: sim_def sim_ReadFile_def sim_WriteFile_def sim_Get_def st_def lorem_cached_def
        perm_0644_def lib_err_def)

section \<open>Properties of file-set resolution\<close>

lemma and_then_Return: "and_then r Return = r"
  by (cases r) (simp_all add: and_then_def)

lemma resolve_Cons_fun:
  "resolve E slug ((ext, j) # fs) = (\<lambda>f. and_then (put_format E slug ext j f) (resolve E slug fs))"
  by (rule ext) simp

lemma resolve_Nil_fun: "resolve E slug [] = Return"
  by (rule ext) simp

lemma Files_resolve: "Files E b = resolve E (BookDetails.Slug b) (formats b) []"
  unfolding Files_def formats_def resolve_Cons_fun resolve_Nil_fun and_then_Return ..

lemma put_format_Some:
  "u j = Some x \<Longrightarrow>
     put_format E slug ext j f =
       Return (if url_String E x \<noteq> [] then AList.update (slug @ ext) j f else f)"
  by (simp add: put_format_def JsonURL_String_def)

lemma put_format_None: "u j = None \<Longrightarrow> put_format E slug ext j f = Panic nil_deref"
  by (simp add: put_format_def JsonURL_String_def)

text \<open>The first \<^verbatim>\<open>nil\<close> field stops the loop with a panic.\<close>

lemma resolve_Panic:
  "\<exists>j \<in> snd ` set fs. u j = None \<Longrightarrow> resolve E slug fs f = Panic nil_deref"
proof (induction fs arbitrary: f)
  case Nil
  then show ?case by simp
next
  case (Cons p fs)
  obtain ext j where p: "p = (ext, j)" by (cases p)
  show ?case
  proof (cases "u j")
    case None
    then show ?thesis by (simp add: p put_format_None and_then_def)
  next
    case (Some x)
    with Cons.prems p have "\<exists>j \<in> snd ` set fs. u j = None" by auto
    then show ?thesis using Some by (simp add: p put_format_Some and_then_def Cons.IH)
  qed
qed

text \<open>
  Without a \<^verbatim>\<open>nil\<close> field the loop returns; over distinct extensions, a key of the
  result is either the key of an available format of the list, bound to that format's
  field, or a key of the starting map that no available format of the list writes.
\<close>

lemma resolve_Return:
  assumes "\<forall>j \<in> snd ` set fs. u j \<noteq> None" and "distinct (map fst fs)" and "distinct (map fst f)"
  shows "\<exists>f'. resolve E slug fs f = Return f' \<and> distinct (map fst f') \<and>
           (\<forall>k v. map_of f' k = Some v \<longleftrightarrow>
              (\<exists>ext j. (ext, j) \<in> set fs \<and> available E j \<and> k = slug @ ext \<and> v = j)
              \<or> (map_of f k = Some v \<and>
                  \<not> (\<exists>ext j. (ext, j) \<in> set fs \<and> available E j \<and> k = slug @ ext)))"
  using assms
proof (induction fs arbitrary: f)
  case Nil
  then show ?case by simp
next
  case (Cons p fs)
  obtain ext j where p: "p = (ext, j)" by (cases p)
  from Cons.prems p obtain x where x: "u j = Some x" by auto
  define f1 where "f1 = (if url_String E x \<noteq> [] then AList.update (slug @ ext) j f else f)"
  have d1: "distinct (map fst f1)"
    using Cons.prems(3) by (simp add: f1_def distinct_update)
  have m1: "map_of f1 k = (if available E j \<and> k = slug @ ext then Some j else map_of f k)" for k
    using x by (simp add: f1_def available_def update_conv')
  have step: "resolve E slug (p # fs) f = resolve E slug fs f1"
    using x by (simp add: p put_format_Some and_then_def f1_def)
  from Cons.prems have "\<forall>j \<in> snd ` set fs. u j \<noteq> None" "distinct (map fst fs)" by auto
  from Cons.IH [OF this d1] obtain f' where
    r: "resolve E slug fs f1 = Return f'" and d: "distinct (map fst f')" and
    m: "\<And>k v. map_of f' k = Some v \<longleftrightarrow>
              (\<exists>ext j. (ext, j) \<in> set fs \<and> available E j \<and> k = slug @ ext \<and> v = j)
              \<or> (map_of f1 k = Some v \<and>
                  \<not> (\<exists>ext j. (ext, j) \<in> set fs \<and> available E j \<and> k = slug @ ext))"
    by blast
  have notin: "ext \<notin> fst ` set fs" using Cons.prems(2) p by simp
  have "map_of f' k = Some v \<longleftrightarrow>
              (\<exists>ext j. (ext, j) \<in> set (p # fs) \<and> available E j \<and> k = slug @ ext \<and> v = j)
              \<or> (map_of f k = Some v \<and>
                  \<not> (\<exists>ext j. (ext, j) \<in> set (p # fs) \<and> available E j \<and> k = slug @ ext))" for k v
    unfolding m m1 using notin p by (auto simp: image_iff)
  with r d step show ?case by simp
qed

lemma formats_distinct: "distinct (map fst (formats b))"
  by (simp add: formats_def)

lemma Files_Return:
  assumes "\<forall>j \<in> snd ` set (formats b). u j \<noteq> None"
  shows "\<exists>f. Files E b = Return f \<and> distinct (map fst f) \<and>
           (\<forall>k v. map_of f k = Some v \<longleftrightarrow>
              (\<exists>ext j. (ext, j) \<in> set (formats b) \<and> available E j
                 \<and> k = BookDetails.Slug b @ ext \<and> v = j))"
  using resolve_Return [OF assms formats_distinct, of "[]" E "BookDetails.Slug b"]
  by (simp add: Files_resolve)

lemma Files_only_txt:
  assumes "BookDetails.Slug b = ''foo''"
    and "map (\<lambda>(ext, j). JsonURL_String E j) (formats b) =
           [Return ''http://x/a.txt'', Return [], Return [], Return [], Return [], Return [],
            Return []]"
  shows "Files E b = Return [(''foo.txt'', Txt b)]"
  using assms by (simp add: Files_def formats_def put_format_def and_then_def)

text \<open>
  C5. For a detail record whose seven format fields each hold a URL, \<open>Files\<close> returns a
  map with one entry per key; a key is bound to a value exactly when it is the slug
  followed by the extension of one of the seven formats, that format's URL has a
  non-empty string form, and the value is that format's field. In particular, when the
  slug is \<open>foo\<close>, the text URL reads \<open>http://x/a.txt\<close> and the six others read as the
  empty string, the map is exactly \<open>foo.txt\<close> bound to the text field.
\<close>

theorem Files_exact:
  assumes "\<forall>j \<in> snd ` set (formats b). u j \<noteq> None"
  shows "\<exists>f. Files E b = Return f \<and> distinct (map fst f)
           \<and> (\<forall>k v. map_of f k = Some v \<longleftrightarrow>
                (\<exists>ext j. (ext, j) \<in> set (formats b) \<and> available E j
                   \<and> k = BookDetails.Slug b @ ext \<and> v = j))
           \<and> (BookDetails.Slug b = ''foo'' \<and>
              map (\<lambda>(ext, j). JsonURL_String E j) (formats b) =
                [Return ''http://x/a.txt'', Return [], Return [], Return [], Return [], Return [],
                 Return []]
              \<longrightarrow> f = [(''foo.txt'', Txt b)])"
  using Files_Return [OF assms, of E] Files_only_txt [of b E] by auto

theorem Files_exact_witness:
  "Files sim foo_detail = Return [(''foo.txt'', \<lparr>u = Some ''http://x/a.txt''\<rparr>)]"
  using Files_exact [of foo_detail sim]
  by (auto simp: formats_def foo_detail_def sim_def JsonURL_String_def)

text \<open>
  C9. \<open>String\<close> and \<open>MarshalJSON\<close> on a \<open>JsonURL\<close> whose pointer is \<^verbatim>\<open>nil\<close> panic with a
  nil dereference. \<open>Files\<close> panics in the same way as soon as one of the seven format
  fields has a \<^verbatim>\<open>nil\<close> pointer, and returns a map when none has.
\<close>

theorem Files_nil_panics:
  "JsonURL_String E \<lparr>u = None\<rparr> = Panic nil_deref
   \<and> MarshalJSON E \<lparr>u = None\<rparr> = Panic nil_deref
   \<and> ((\<exists>j \<in> snd ` set (formats b). u j = None) \<longrightarrow> Files E b = Panic nil_deref)
   \<and> ((\<forall>j \<in> snd ` set (formats b). u j \<noteq> None) \<longrightarrow> (\<exists>f. Files E b = Return f))"
proof -
  have "Files E b = Panic nil_deref" if "\<exists>j \<in> snd ` set (formats b). u j = None"
    using resolve_Panic [OF that] by (simp add: Files_resolve)
  moreover have "\<exists>f. Files E b = Return f" if "\<forall>j \<in> snd ` set (formats b). u j \<noteq> None"
    using Files_Return [OF that] by blast
  ultimately show ?thesis
    by (simp add: JsonURL_String_def MarshalJSON_def)
qed

theorem Files_nil_panics_witness:
  "Files sim foo_no_epub = Panic nil_deref
   \<and> Files sim zero_BookDetails = Panic nil_deref
   \<and> (\<exists>f. Files sim foo_detail = Return f)"
  using Files_nil_panics [of sim foo_no_epub] Files_nil_panics [of sim zero_BookDetails]
    Files_nil_panics [of sim foo_detail]
  by (simp add: formats_def foo_no_epub_def foo_detail_def zero_BookDetails_def)

section \<open>Properties of the URL codec\<close>

































section \<open>Properties of the catalog client\<close>

lemma Details_Slug:
  "Details E b s = (Return (book, err), s') \<Longrightarrow> BookDetails.Slug book = BookEssential.Slug b"
  by (auto simp: Details_def split: prod.splits outcome.splits)

lemma Details_decoded:
  assumes "cachedFile E (path_Join E (BookEssential.Slug b) ''details.json'')
             (u (BookEssential.Href b)) s = (Return (content, None), s')"
    and "json_Unmarshal_BookDetails E content zero_BookDetails = (book, err)"
  shows "Details E b s =
           (Return (book\<lparr>BookDetails.Slug := BookEssential.Slug b\<rparr>, lib_err err), s')"
  using assms by (simp add: Details_def Details_body_def DetailsFile_def)

lemma Details_fetch_failed:
  assumes "cachedFile E (path_Join E (BookEssential.Slug b) ''details.json'')
             (u (BookEssential.Href b)) s = (Return (content, Some err), s')"
  shows "Details E b s =
           (Return (zero_BookDetails\<lparr>BookDetails.Slug := BookEssential.Slug b\<rparr>, Some err), s')"
  using assms by (simp add: Details_def Details_body_def DetailsFile_def)

lemma Details_effects:
  "snd (Details E b s) =
     snd (cachedFile E (path_Join E (BookEssential.Slug b) ''details.json'')
            (u (BookEssential.Href b)) s)"
  by (simp add: Details_def Details_body_def DetailsFile_def
        split: prod.splits outcome.splits option.splits)

text \<open>
  C7. \<open>Details\<close> makes one call of \<open>cachedFile\<close>, with the path \<^verbatim>\<open>path.Join\<close> of the
  summary's slug and \<open>details.json\<close> and with the pointer of the summary's \<open>Href\<close>: its
  effects are exactly the effects of that call. When the call returns bytes without an
  error, the bytes are decoded into a zero-valued record, and the result is the decoded
  record with its slug replaced by the summary's, next to the decoder's error. Whenever
  \<open>Details\<close> returns, the slug of the record it returns is the summary's, whatever the
  decoder produced.
\<close>

theorem Details_spec:
  "snd (Details E b s) =
     snd (cachedFile E (path_Join E (BookEssential.Slug b) ''details.json'')
            (u (BookEssential.Href b)) s)
   \<and> (\<forall>content s' book err.
        cachedFile E (path_Join E (BookEssential.Slug b) ''details.json'')
          (u (BookEssential.Href b)) s = (Return (content, None), s') \<longrightarrow>
        json_Unmarshal_BookDetails E content zero_BookDetails = (book, err) \<longrightarrow>
          Details E b s =
            (Return (book\<lparr>BookDetails.Slug := BookEssential.Slug b\<rparr>, lib_err err), s'))
   \<and> (\<forall>book err s'.
        Details E b s = (Return (book, err), s') \<longrightarrow>
          BookDetails.Slug book = BookEssential.Slug b)"
  using Details_effects [of E b s] Details_decoded [of E b s] Details_Slug [of E b s]
  by blast

theorem Details_spec_witness:
  "fst (sim_decode ''http://f/l'' zero_BookDetails) =
     (zero_BookDetails :: string BookDetails)
       \<lparr>BookDetails.Slug := ''slug-in-json'', BookDetails.Title := ''http://f/l'',
        URL := \<lparr>u = Some []\<rparr>, Txt := \<lparr>u = Some ''http://f/l''\<rparr>, Xml := \<lparr>u = Some []\<rparr>,
        Html := \<lparr>u = Some []\<rparr>, Fb2 := \<lparr>u = Some []\<rparr>, Epub := \<lparr>u = Some []\<rparr>,
        Mobi := \<lparr>u = Some []\<rparr>, Pdf := \<lparr>u = Some ''http://f/l''\<rparr>\<rparr>
   \<and> Details sim lorem (st lorem_cached False) =
       (Return ((fst (sim_decode ''http://f/l'' zero_BookDetails))
                  \<lparr>BookDetails.Slug := ''lorem''\<rparr>, None),
        st lorem_cached False)"
  using Details_spec [of sim lorem "st lorem_cached False"]
  by (simp add: cachedFile_def sim_def sim_ReadFile_def sim_decode_def st_def lorem_cached_def
        lorem_def lib_err_def)

text \<open>
  C10. When \<open>Details\<close> returns an error, the record returned with it has the summary's
  slug. When the error is that of \<open>cachedFile\<close>, \<open>Details\<close> returns it with the
  zero-valued record in which only the slug has been set.
\<close>

theorem Details_failure:
  "(\<forall>book err s'.
      Details E b s = (Return (book, Some err), s') \<longrightarrow>
        BookDetails.Slug book = BookEssential.Slug b)
   \<and> (\<forall>content err s'.
        cachedFile E (path_Join E (BookEssential.Slug b) ''details.json'')
          (u (BookEssential.Href b)) s = (Return (content, Some err), s') \<longrightarrow>
          Details E b s =
            (Return (zero_BookDetails\<lparr>BookDetails.Slug := BookEssential.Slug b\<rparr>, Some err), s'))"
  using Details_fetch_failed [of E b s] Details_Slug [of E b s]
  by blast

theorem Details_failure_witness:
  "Details sim lorem (st ([], []) True) =
     (Return (zero_BookDetails\<lparr>BookDetails.Slug := ''lorem''\<rparr>, Some ErrOffline),
      st ([], []) True)
   \<and> Details sim lorem (st lorem_broken False) =
     (Return (zero_BookDetails\<lparr>BookDetails.Slug := ''lorem''\<rparr>, Some (LibError 3)),
      st lorem_broken False)
   \<and> BookDetails.Slug (zero_BookDetails\<lparr>BookDetails.Slug := ''lorem''\<rparr>) = BookEssential.Slug lorem"
  using Details_failure [of sim lorem "st ([], []) True"]
    Details_failure [of sim lorem "st lorem_broken False"]
  by (simp add: Details_def Details_body_def DetailsFile_def cachedFile_def sim_def
        sim_ReadFile_def sim_decode_def st_def lorem_broken_def lorem_def lib_err_def)

section \<open>Properties of the orchestrator\<close>

lemma fetchFiles_cached:
  assumes "\<forall>(fileName, j) \<in> set xs.
             \<exists>c. os_ReadFile E (world s) (path_Join E (BookEssential.Slug b) fileName) = (c, None)"
  shows "fetchFiles E b xs s = (Return (), s)"
  using assms
proof (induction xs)
  case Nil
  then show ?case by simp
next
  case (Cons p xs)
  obtain fileName j where p: "p = (fileName, j)" by (cases p)
  from Cons.prems p obtain c where
    "os_ReadFile E (world s) (path_Join E (BookEssential.Slug b) fileName) = (c, None)"
    by auto
  then have "cachedFile E (path_Join E (BookEssential.Slug b) fileName) (u j) s
               = (Return (c, None), s)"
    by (rule cachedFile_cached)
  moreover from Cons have "fetchFiles E b xs s = (Return (), s)" by simp
  ultimately show ?case by (simp add: p)
qed

lemma ObtainBook_fetch_cached:
  assumes det: "os_ReadFile E (world s) (path_Join E (BookEssential.Slug b) DetailsFile)
                  = (content, None)"
    and dec: "json_Unmarshal_BookDetails E content zero_BookDetails = (book, None)"
    and fs: "Files E (book\<lparr>BookDetails.Slug := BookEssential.Slug b\<rparr>) = Return f"
    and ord: "set (range_order E f) = set f"
    and files: "\<forall>(fileName, j) \<in> set f.
             \<exists>c. os_ReadFile E (world s) (path_Join E (BookEssential.Slug b) fileName) = (c, None)"
  shows "ObtainBook_fetch E b s = (Return (book\<lparr>BookDetails.Slug := BookEssential.Slug b\<rparr>), s)"
proof -
  have "cachedFile E (path_Join E (BookEssential.Slug b) DetailsFile) (u (BookEssential.Href b)) s
          = (Return (content, None), s)"
    using det by (rule cachedFile_cached)
  then have d: "Details E b s
          = (Return (book\<lparr>BookDetails.Slug := BookEssential.Slug b\<rparr>, None), s)"
    using dec by (simp add: Details_def Details_body_def lib_err_def)
  have "fetchFiles E b (range_order E f) s = (Return (), s)"
    using files ord by (intro fetchFiles_cached) simp
  with d fs show ?thesis by (simp add: ObtainBook_fetch_def)
qed

lemma ObtainBook_cached_once:
  assumes mk: "os_Mkdir E (world s) (BookEssential.Slug b) perm_0755 = (Some e, world s)"
    and ex: "os_IsExist E e"
    and det: "os_ReadFile E (world s) (path_Join E (BookEssential.Slug b) DetailsFile)
                  = (content, None)"
    and dec: "json_Unmarshal_BookDetails E content zero_BookDetails = (book, None)"
    and fs: "Files E (book\<lparr>BookDetails.Slug := BookEssential.Slug b\<rparr>) = Return f"
    and ord: "set (range_order E f) = set f"
    and files: "\<forall>(fileName, j) \<in> set f.
             \<exists>c. os_ReadFile E (world s) (path_Join E (BookEssential.Slug b) fileName) = (c, None)"
  shows "ObtainBook E b s =
           (Return (book\<lparr>BookDetails.Slug := BookEssential.Slug b\<rparr>),
            s\<lparr>trace := trace s @ [EvMkdir (BookEssential.Slug b) perm_0755]\<rparr>)"
proof -
  let ?s1 = "s\<lparr>trace := trace s @ [EvMkdir (BookEssential.Slug b) perm_0755]\<rparr>"
  have "ObtainBook_fetch E b ?s1 = (Return (book\<lparr>BookDetails.Slug := BookEssential.Slug b\<rparr>), ?s1)"
    using det files by (intro ObtainBook_fetch_cached [OF _ dec fs ord]) simp_all
  then show ?thesis using mk ex by (simp add: ObtainBook_def)
qed

lemma writes_append: "writes (xs @ ys) = writes xs @ writes ys"
  by (induction xs rule: writes.induct) simp_all

text \<open>
  C8. Take a state in which the cache of a summary is complete: \<^verbatim>\<open>Mkdir\<close> of the slug
  reports that the directory exists and changes nothing, \<open>details.json\<close> can be read and
  decoded, and every file that \<open>Files\<close> resolves from the decoded record can be read.
  Then \<open>ObtainBook\<close> returns the record and the only thing it adds to the trace is its
  \<^verbatim>\<open>Mkdir\<close> attempt: it sends no request, writes no file and leaves the outside world as
  it was. The state it leaves satisfies the same conditions, so calling it again
  behaves in the same way.
\<close>

theorem ObtainBook_idempotent:
  assumes mk: "os_Mkdir E (world s) (BookEssential.Slug b) perm_0755 = (Some e, world s)"
    and ex: "os_IsExist E e"
    and det: "os_ReadFile E (world s) (path_Join E (BookEssential.Slug b) DetailsFile)
                  = (content, None)"
    and dec: "json_Unmarshal_BookDetails E content zero_BookDetails = (book, None)"
    and fs: "Files E (book\<lparr>BookDetails.Slug := BookEssential.Slug b\<rparr>) = Return f"
    and ord: "set (range_order E f) = set f"
    and files: "\<forall>(fileName, j) \<in> set f.
             \<exists>c. os_ReadFile E (world s) (path_Join E (BookEssential.Slug b) fileName) = (c, None)"
  shows "ObtainBook E b s =
           (Return (book\<lparr>BookDetails.Slug := BookEssential.Slug b\<rparr>),
            s\<lparr>trace := trace s @ [EvMkdir (BookEssential.Slug b) perm_0755]\<rparr>)
       \<and> world (snd (ObtainBook E b s)) = world s
       \<and> gets (trace (snd (ObtainBook E b s))) = gets (trace s)
       \<and> writes (trace (snd (ObtainBook E b s))) = writes (trace s)
       \<and> fst (ObtainBook E b (snd (ObtainBook E b s))) = fst (ObtainBook E b s)
       \<and> world (snd (ObtainBook E b (snd (ObtainBook E b s)))) = world s
       \<and> gets (trace (snd (ObtainBook E b (snd (ObtainBook E b s))))) = gets (trace s)
       \<and> writes (trace (snd (ObtainBook E b (snd (ObtainBook E b s))))) = writes (trace s)"
proof -
  let ?s1 = "s\<lparr>trace := trace s @ [EvMkdir (BookEssential.Slug b) perm_0755]\<rparr>"
  let ?r = "Return (book\<lparr>BookDetails.Slug := BookEssential.Slug b\<rparr>)"
  have one: "ObtainBook E b s = (?r, ?s1)"
    by (rule ObtainBook_cached_once [OF mk ex det dec fs ord files])
  have two: "ObtainBook E b ?s1
               = (?r, ?s1\<lparr>trace := trace ?s1 @ [EvMkdir (BookEssential.Slug b) perm_0755]\<rparr>)"
    using mk det files by (intro ObtainBook_cached_once [OF _ ex _ dec fs ord]) simp_all
  show ?thesis
    by (simp add: one two gets_append writes_append)
qed

theorem ObtainBook_idempotent_witness:
  "ObtainBook sim lorem (st lorem_cached False) =
     (Return ((fst (sim_decode ''http://f/l'' zero_BookDetails))\<lparr>BookDetails.Slug := ''lorem''\<rparr>),
      \<lparr>world = lorem_cached, Offline = False, trace = [EvMkdir ''lorem'' 493]\<rparr>)
   \<and> world (snd (ObtainBook sim lorem (st lorem_cached False))) = lorem_cached
   \<and> gets (trace (snd (ObtainBook sim lorem (st lorem_cached False)))) = []
   \<and> writes (trace (snd (ObtainBook sim lorem (st lorem_cached False)))) = []"
proof -
  let ?s = "st lorem_cached False"
  let ?book = "fst (sim_decode ''http://f/l'' zero_BookDetails)"
  let ?f = "[(''lorem.txt'', \<lparr>u = Some ''http://f/l''\<rparr>), (''lorem.pdf'', \<lparr>u = Some ''http://f/l''\<rparr>)]"
  have mk: "os_Mkdir sim (world ?s) (BookEssential.Slug lorem) perm_0755 = (Some 17, world ?s)"
    by (simp add: sim_def sim_Mkdir_def st_def lorem_cached_def lorem_def)
  have ex: "os_IsExist sim 17"
    by (simp add: sim_def)
  have det: "os_ReadFile sim (world ?s) (path_Join sim (BookEssential.Slug lorem) DetailsFile)
               = (''http://f/l'', None)"
    by (simp add: sim_def sim_ReadFile_def st_def lorem_cached_def lorem_def DetailsFile_def)
  have dec: "json_Unmarshal_BookDetails sim ''http://f/l'' zero_BookDetails = (?book, None)"
    by (simp add: sim_def sim_decode_def)
  have fs: "Files sim (?book\<lparr>BookDetails.Slug := BookEssential.Slug lorem\<rparr>) = Return ?f"
    by (simp add: sim_def sim_decode_def lorem_def zero_BookDetails_def
          Files_def put_format_def JsonURL_String_def and_then_def)
  have ord: "set (range_order sim ?f) = set ?f"
    by (simp add: sim_def insert_commute)
  have files: "\<forall>(fileName, j) \<in> set ?f.
      \<exists>c. os_ReadFile sim (world ?s) (path_Join sim (BookEssential.Slug lorem) fileName) = (c, None)"
    by (simp add: sim_def sim_ReadFile_def st_def lorem_cached_def lorem_def)
  from ObtainBook_idempotent [OF mk ex det dec fs ord files]
  show ?thesis
    by (simp add: st_def lorem_def perm_0755_def)
qed

end
